theory Spec2Isabelle
  imports Complex_Main "HOL-Library.Log_Nat"
begin

section \<open>Two-dimensional arrays\<close>

text \<open>
  The notebook \<^verbatim>\<open>Part_06.ipynb\<close> works on two-dimensional numpy arrays. An array carries
  its shape explicitly, so that a matrix with no rows still has a column count (and the
  other way round), as in numpy. The entries are kept polymorphic: slicing and
  transposition move entries and never compute with them.
\<close>

datatype py_exception = IndexError | ValueError | LinAlgError

record 'a ndarray =
  nrows :: nat
  ncols :: nat
  rows :: "'a list list"

definition well_shaped :: "'a ndarray \<Rightarrow> bool" where
  "well_shaped A \<longleftrightarrow>
     length (rows A) = nrows A \<and> list_all (\<lambda>r. length r = ncols A) (rows A)"

text \<open>\<^verbatim>\<open>A.shape\<close>\<close>

definition shape :: "'a ndarray \<Rightarrow> nat \<times> nat" where
  "shape A = (nrows A, ncols A)"

text \<open>Column \<open>j\<close> of an array, for \<open>j\<close> inside the shape.\<close>

definition column :: "'a ndarray \<Rightarrow> nat \<Rightarrow> 'a list" where
  "column A j = map (\<lambda>r. r ! j) (rows A)"

text \<open>
  \<^verbatim>\<open>A[:, i]\<close> and \<^verbatim>\<open>dataset.iloc[:, i].values\<close> with an integer \<open>i\<close>: a negative
  index counts from the last column, and an index outside the array raises IndexError.
\<close>

definition column_at :: "'a ndarray \<Rightarrow> int \<Rightarrow> py_exception + 'a list" where
  "column_at A i =
     (let n = int (ncols A);
          k = (if i < 0 then i + n else i)
      in if k < 0 \<or> n \<le> k then Inl IndexError else Inr (column A (nat k)))"

text \<open>
  The bounds of a slice \<^verbatim>\<open>start:stop\<close> (step 1) on an axis of length \<open>n\<close>, as Python
  adjusts them: an omitted bound is the end of the axis, a negative bound counts from the
  end, and every bound is clamped to \<open>[0, n]\<close>. No bound raises.
\<close>

definition slice_indices :: "int option \<Rightarrow> int option \<Rightarrow> nat \<Rightarrow> nat \<times> nat" where
  "slice_indices start stop n =
     (let len = int n;
          lo = (case start of None \<Rightarrow> 0
                | Some a \<Rightarrow> if a < 0 then max (a + len) 0 else min a len);
          hi = (case stop of None \<Rightarrow> len
                | Some b \<Rightarrow> if b < 0 then max (b + len) 0 else min b len)
      in (nat lo, nat hi))"

text \<open>\<^verbatim>\<open>A[:, start:stop]\<close>: the columns \<open>lo, \<dots>, hi - 1\<close> of every row (none when \<open>hi \<le> lo\<close>).\<close>

definition slice_columns :: "'a ndarray \<Rightarrow> int option \<Rightarrow> int option \<Rightarrow> 'a ndarray" where
  "slice_columns A start stop =
     (case slice_indices start stop (ncols A) of (lo, hi) \<Rightarrow>
        \<lparr>nrows = nrows A, ncols = hi - lo,
         rows = map (\<lambda>r. take (hi - lo) (drop lo r)) (rows A)\<rparr>)"

text \<open>\<^verbatim>\<open>A.T\<close>\<close>

definition array_T :: "'a ndarray \<Rightarrow> 'a ndarray" where
  "array_T A = \<lparr>nrows = ncols A, ncols = nrows A,
                rows = map (\<lambda>j. column A j) [0..<ncols A]\<rparr>"

text \<open>
  \<^verbatim>\<open>frame.values\<close>: the cells of the selected part of the table as one array of a
  common element type. The conversion \<open>conv\<close> of a cell to that type is pandas' (a mixed
  int64/float64 selection becomes float64, which rounds large integers); it is a parameter.
\<close>

definition to_values :: "('b \<Rightarrow> 'a) \<Rightarrow> 'b ndarray \<Rightarrow> 'a ndarray" where
  "to_values conv A = \<lparr>nrows = nrows A, ncols = ncols A, rows = map (map conv) (rows A)\<rparr>"

text \<open>
  \<^verbatim>\<open>A @ B\<close> for two-dimensional operands: ValueError when the inner dimensions differ,
  otherwise entry \<open>(i, j)\<close> is the inner product of row \<open>i\<close> of \<open>A\<close> with column \<open>j\<close> of
  \<open>B\<close>. The inner product itself is computed by numpy's kernel for the element type (for
  float64 a rounded sum of rounded products, in an order the library chooses); it is the
  parameter \<open>ip\<close>.
\<close>

type_synonym 'a inner_product = "'a list \<Rightarrow> 'a list \<Rightarrow> 'a"

definition matmul ::
  "'a inner_product \<Rightarrow> 'a ndarray \<Rightarrow> 'a ndarray \<Rightarrow> py_exception + 'a ndarray" where
  "matmul ip A B =
     (if ncols A \<noteq> nrows B then Inl ValueError
      else Inr \<lparr>nrows = nrows A, ncols = ncols B,
                rows = map (\<lambda>r. map (\<lambda>j. ip r (column B j)) [0..<ncols B]) (rows A)\<rparr>)"

section \<open>Element arithmetic\<close>

text \<open>
  The values of IEEE 754 binary64, the element type of the notebook's arrays: the finite
  values as the rationals they denote, the two infinities and NaN. The sign of zero is not
  kept.
\<close>

datatype float64 = Finite rat | PosInf | NegInf | NaN

definition pow2 :: "int \<Rightarrow> rat" where
  "pow2 e = (if 0 \<le> e then 2 ^ nat e else 1 / 2 ^ nat (- e))"

text \<open>For \<open>q > 0\<close>, the \<open>e\<close> with \<open>2\<^sup>e \<le> q < 2\<^sup>e\<^sup>+\<^sup>1\<close>.\<close>

definition floor_log2 :: "rat \<Rightarrow> int" where
  "floor_log2 q =
     (case quotient_of q of (a, b) \<Rightarrow>
        let e = bitlen a - bitlen b in if pow2 e \<le> q then e else e - 1)"

text \<open>The nearest integer, a tie going to the even one.\<close>

definition round_half_even :: "rat \<Rightarrow> int" where
  "round_half_even q =
     (let n = \<lfloor>q\<rfloor>; r = q - of_int n
      in if r < 1 / 2 then n else if 1 / 2 < r then n + 1
         else if even n then n else n + 1)"

text \<open>
  Rounding of an exact result to binary64, to nearest with ties to even: 53 significant
  bits, spacing \<open>2\<^sup>-\<^sup>1\<^sup>0\<^sup>7\<^sup>4\<close> in the subnormal range, and an infinity when the rounded
  magnitude \<open>|m| \<sqdot> 2\<^sup>u\<close> reaches \<open>2\<^sup>1\<^sup>0\<^sup>2\<^sup>4\<close> (that is, when \<open>bitlen |m| + u > 1024\<close>).
\<close>

definition round_float64 :: "rat \<Rightarrow> float64" where
  "round_float64 q =
     (if q = 0 then Finite 0
      else let u = max (floor_log2 \<bar>q\<bar> - 52) (- 1074);
               m = round_half_even (q / pow2 u)
           in if 1024 < bitlen \<bar>m\<bar> + u then (if 0 < m then PosInf else NegInf)
              else Finite (of_int m * pow2 u))"

fun float64_add :: "float64 \<Rightarrow> float64 \<Rightarrow> float64" where
  "float64_add NaN _ = NaN"
| "float64_add _ NaN = NaN"
| "float64_add PosInf NegInf = NaN"
| "float64_add NegInf PosInf = NaN"
| "float64_add PosInf _ = PosInf"
| "float64_add _ PosInf = PosInf"
| "float64_add NegInf _ = NegInf"
| "float64_add _ NegInf = NegInf"
| "float64_add (Finite a) (Finite b) = round_float64 (a + b)"

fun float64_mul :: "float64 \<Rightarrow> float64 \<Rightarrow> float64" where
  "float64_mul NaN _ = NaN"
| "float64_mul _ NaN = NaN"
| "float64_mul (Finite a) (Finite b) = round_float64 (a * b)"
| "float64_mul (Finite a) PosInf = (if a = 0 then NaN else if 0 < a then PosInf else NegInf)"
| "float64_mul (Finite a) NegInf = (if a = 0 then NaN else if 0 < a then NegInf else PosInf)"
| "float64_mul PosInf (Finite b) = (if b = 0 then NaN else if 0 < b then PosInf else NegInf)"
| "float64_mul NegInf (Finite b) = (if b = 0 then NaN else if 0 < b then NegInf else PosInf)"
| "float64_mul PosInf PosInf = PosInf"
| "float64_mul PosInf NegInf = NegInf"
| "float64_mul NegInf PosInf = NegInf"
| "float64_mul NegInf NegInf = PosInf"

text \<open>
  A float64 inner product: every product is rounded and the products are added from left
  to right, each sum rounded. It is one of the orders a kernel may use; it is applied below
  only where the products are exact and at most two of them are not zero, so that every
  order (and a fused multiply-add) gives the same value.
\<close>

definition float64_dot :: "float64 inner_product" where
  "float64_dot xs ys = foldl float64_add (Finite 0) (map2 float64_mul xs ys)"

text \<open>The exact inner product of rational vectors, without any rounding.\<close>

definition exact_dot :: "rat inner_product" where
  "exact_dot xs ys = sum_list (map2 (*) xs ys)"

section \<open>The stages of the notebook\<close>

text \<open>
  Matrix ingestion:
  \<^verbatim>\<open>Xh = dataset.iloc[:, f0:f1].values; y = dataset.iloc[:, lab].values; X = Xh.T\<close>
  (\<open>0:13\<close> and \<open>13\<close> for the wine data, \<open>1:5\<close> and \<open>5\<close> for the iris data). The labels
  are one column of the table and keep its element type.
\<close>

definition ingest ::
  "('b \<Rightarrow> 'a) \<Rightarrow> 'b ndarray \<Rightarrow> int \<Rightarrow> int \<Rightarrow> int \<Rightarrow>
     py_exception + ('a ndarray \<times> 'b list)" where
  "ingest conv dataset f0 f1 lab =
     (let Xh = to_values conv (slice_columns dataset (Some f0) (Some f1))
      in case column_at dataset lab of
           Inl e \<Rightarrow> Inl e
         | Inr y \<Rightarrow> Inr (array_T Xh, y))"

text \<open>
  The decomposition \<^verbatim>\<open>LA.svd(X, full_matrices=False)\<close> is numpy's, not the notebook's:
  it is a parameter of the model.
\<close>

type_synonym 'a svd_routine =
  "'a ndarray \<Rightarrow> py_exception + ('a ndarray \<times> 'a list \<times> 'a ndarray)"

text \<open>Component selection \<^verbatim>\<open>P = U[:, start:stop]\<close>; a slice raises nothing.\<close>

definition component_selector ::
  "'a ndarray \<Rightarrow> int option \<Rightarrow> int option \<Rightarrow> py_exception + 'a ndarray" where
  "component_selector U start stop = Inr (slice_columns U start stop)"

text \<open>Projection \<^verbatim>\<open>R = P.T @ X\<close>\<close>

definition projector ::
  "'a inner_product \<Rightarrow> 'a ndarray \<Rightarrow> 'a ndarray \<Rightarrow> py_exception + 'a ndarray" where
  "projector ip P X = matmul ip (array_T P) X"

text \<open>
  One run of the notebook on a dataset, from the table to the projected coordinates and the
  labels handed to the plot.
\<close>

definition pca ::
  "'a inner_product \<Rightarrow> ('b \<Rightarrow> 'a) \<Rightarrow> 'a svd_routine \<Rightarrow> 'b ndarray \<Rightarrow> int \<Rightarrow> int \<Rightarrow> int \<Rightarrow>
     int option \<Rightarrow> int option \<Rightarrow> py_exception + ('a ndarray \<times> 'b list)" where
  "pca ip conv svd dataset f0 f1 lab start stop =
     (case ingest conv dataset f0 f1 lab of
        Inl e \<Rightarrow> Inl e
      | Inr (X, y) \<Rightarrow>
          (case svd X of
             Inl e \<Rightarrow> Inl e
           | Inr (U, s, Vh) \<Rightarrow>
               (case component_selector U start stop of
                  Inl e \<Rightarrow> Inl e
                | Inr P \<Rightarrow>
                    (case projector ip P X of
                       Inl e \<Rightarrow> Inl e
                     | Inr R \<Rightarrow> Inr (R, y)))))"

section \<open>Slices\<close>

lemma slice_indices_le:
  "slice_indices start stop n = (lo, hi) \<Longrightarrow> lo \<le> n \<and> hi \<le> n"
  by (auto simp: slice_indices_def Let_def split: option.splits if_splits)

lemma slice_indices_nonneg:
  "0 \<le> a \<Longrightarrow> 0 \<le> b \<Longrightarrow>
   slice_indices (Some a) (Some b) n = (min (nat a) n, min (nat b) n)"
  by (auto simp: slice_indices_def Let_def min_def)

lemma well_shaped_slice_columns:
  "well_shaped A \<Longrightarrow> well_shaped (slice_columns A start stop)"
  by (auto simp: well_shaped_def slice_columns_def list_all_iff
      split: prod.splits dest!: slice_indices_le)

lemma shape_slice_columns:
  "slice_indices start stop (ncols A) = (lo, hi) \<Longrightarrow>
   nrows (slice_columns A start stop) = nrows A \<and> ncols (slice_columns A start stop) = hi - lo"
  by (simp add: slice_columns_def)

lemma column_slice_columns:
  assumes "well_shaped A" "slice_indices start stop (ncols A) = (lo, hi)" "j < hi - lo"
  shows "column (slice_columns A start stop) j = column A (lo + j)"
  using assms slice_indices_le[OF assms(2)]
  by (auto simp: column_def slice_columns_def well_shaped_def list_all_iff)

section \<open>Transposition and products\<close>

lemma well_shaped_array_T:
  "well_shaped A \<Longrightarrow> well_shaped (array_T A)"
  by (simp add: well_shaped_def array_T_def column_def list_all_iff)

lemma rows_array_T_nth:
  "j < ncols A \<Longrightarrow> rows (array_T A) ! j = column A j"
  by (simp add: array_T_def)

lemma matmul_entries:
  assumes "matmul ip A B = Inr R"
  shows "shape R = (nrows A, ncols B) \<and>
         (\<forall>i<length (rows A). \<forall>j<ncols B. rows R ! i ! j = ip (rows A ! i) (column B j))"
  using assms by (auto simp: matmul_def shape_def split: if_splits)

lemma matmul_ok:
  assumes "well_shaped A" "ncols A = nrows B"
  shows "\<exists>R. matmul ip A B = Inr R \<and> well_shaped R \<and> shape R = (nrows A, ncols B)"
  using assms
  by (simp add: matmul_def well_shaped_def shape_def list_all_iff)

lemma projector_entries:
  assumes "projector ip P X = Inr R"
  shows "shape R = (ncols P, ncols X) \<and>
         (\<forall>i<ncols P. \<forall>j<ncols X. rows R ! i ! j = ip (column P i) (column X j))"
proof -
  have "length (rows (array_T P)) = ncols P" "nrows (array_T P) = ncols P"
    by (simp_all add: array_T_def)
  with matmul_entries[of ip "array_T P" X R] assms show ?thesis
    by (simp add: projector_def rows_array_T_nth)
qed

lemma projector_ok:
  assumes "well_shaped P" "nrows P = nrows X"
  shows "\<exists>R. projector ip P X = Inr R \<and> well_shaped R \<and> shape R = (ncols P, ncols X)"
proof -
  have "well_shaped (array_T P)"
    using assms(1) by (rule well_shaped_array_T)
  moreover have "ncols (array_T P) = nrows X" "nrows (array_T P) = ncols P"
    using assms(2) by (simp_all add: array_T_def)
  ultimately show ?thesis
    using matmul_ok[of "array_T P" X ip] by simp (simp add: projector_def)
qed

section \<open>The projector\<close>

text \<open>
  Claim C5, as stated, fails. The claim calls \<open>x \<mapsto> P\<^sup>T x\<close> a linear map. The notebook
  computes \<open>P.T @ X\<close> in float64, where the map is not additive: for \<open>P\<close> with the single
  column \<open>(1, 1)\<close> the samples \<open>(10\<^sup>1\<^sup>6, 1)\<close> and \<open>(0, 1)\<close> are sent to \<open>10\<^sup>1\<^sup>6\<close> and
  \<open>1\<close>, whose float64 sum is \<open>10\<^sup>1\<^sup>6\<close>, while their float64 sum \<open>(10\<^sup>1\<^sup>6, 2)\<close> is sent to
  \<open>10\<^sup>1\<^sup>6 + 2\<close>.
\<close>

theorem projector_not_additive_counterexample:
  "projector float64_dot \<lparr>nrows = 2, ncols = 1, rows = [[Finite 1], [Finite 1]]\<rparr>
     \<lparr>nrows = 2, ncols = 1, rows = [[Finite 10000000000000000], [Finite 1]]\<rparr>
     = Inr \<lparr>nrows = 1, ncols = 1, rows = [[Finite 10000000000000000]]\<rparr> \<and>
   projector float64_dot \<lparr>nrows = 2, ncols = 1, rows = [[Finite 1], [Finite 1]]\<rparr>
     \<lparr>nrows = 2, ncols = 1, rows = [[Finite 0], [Finite 1]]\<rparr>
     = Inr \<lparr>nrows = 1, ncols = 1, rows = [[Finite 1]]\<rparr> \<and>
   projector float64_dot \<lparr>nrows = 2, ncols = 1, rows = [[Finite 1], [Finite 1]]\<rparr>
     \<lparr>nrows = 2, ncols = 1,
      rows = [[float64_add (Finite 10000000000000000) (Finite 0)],
              [float64_add (Finite 1) (Finite 1)]]\<rparr>
     = Inr \<lparr>nrows = 1, ncols = 1, rows = [[Finite 10000000000000002]]\<rparr> \<and>
   float64_add (Finite 10000000000000000) (Finite 1) \<noteq> Finite 10000000000000002"
  by code_simp

text \<open>
  Claim C5, amended. For every projection basis \<open>P\<close> of shape \<open>d \<times> k\<close> and every data
  matrix \<open>X\<close> of shape \<open>d \<times> m\<close>, the projector returns \<open>R = P.T @ X\<close> without raising, and
  \<open>R\<close> has shape \<open>k \<times> m\<close>. Entry \<open>(i, j)\<close> of \<open>R\<close> is the inner product, as the kernel of
  the element type computes it, of column \<open>i\<close> of \<open>P\<close> with column \<open>j\<close> of \<open>X\<close>: column
  \<open>j\<close> of \<open>R\<close> is the image of column \<open>j\<close> of \<open>X\<close> alone under \<open>x \<mapsto> P\<^sup>T x\<close>. Nothing is
  said about linearity: in float64 the map need not commute with sums or scalar multiples.
\<close>

theorem projector_shape_and_entries:
  assumes "well_shaped P" "well_shaped X" "nrows P = nrows X"
  shows "\<exists>R. projector ip P X = Inr R \<and> well_shaped R \<and> shape R = (ncols P, ncols X) \<and>
     (\<forall>i<ncols P. \<forall>j<ncols X. rows R ! i ! j = ip (column P i) (column X j))"
proof -
  from projector_ok[OF assms(1,3)] obtain R where
    R: "projector ip P X = Inr R" "well_shaped R" "shape R = (ncols P, ncols X)"
    by blast
  from projector_entries[OF R(1)] R show ?thesis
    by blast
qed

theorem projector_shape_and_entries_witness:
  "well_shaped \<lparr>nrows = 3, ncols = 2,
                rows = [[Finite 2, Finite 0], [Finite 0, Finite 1], [Finite 3, Finite 1]]\<rparr> \<and>
   well_shaped \<lparr>nrows = 3, ncols = 2,
                rows = [[Finite 1, Finite 2], [Finite 3, Finite 4], [Finite 5, Finite 6]]\<rparr> \<and>
   (\<exists>R. projector float64_dot
           \<lparr>nrows = 3, ncols = 2,
            rows = [[Finite 2, Finite 0], [Finite 0, Finite 1], [Finite 3, Finite 1]]\<rparr>
           \<lparr>nrows = 3, ncols = 2,
            rows = [[Finite 1, Finite 2], [Finite 3, Finite 4], [Finite 5, Finite 6]]\<rparr>
          = Inr R \<and>
        shape R = (2, 2) \<and>
        rows R ! 0 ! 1 = float64_dot [Finite 2, Finite 0, Finite 3]
                                     [Finite 2, Finite 4, Finite 6] \<and>
        rows R ! 0 ! 1 = Finite 22)"
proof -
  let ?P = "\<lparr>nrows = 3, ncols = 2,
             rows = [[Finite 2, Finite 0], [Finite 0, Finite 1], [Finite 3, Finite 1]]\<rparr>"
  let ?X = "\<lparr>nrows = 3, ncols = 2,
             rows = [[Finite 1, Finite 2], [Finite 3, Finite 4], [Finite 5, Finite 6]]\<rparr>"
  have p: "well_shaped ?P" and x: "well_shaped ?X" and d: "nrows ?P = nrows ?X"
    by (simp_all add: well_shaped_def)
  have cp: "column ?P 0 = [Finite 2, Finite 0, Finite 3]"
    and cx: "column ?X 1 = [Finite 2, Finite 4, Finite 6]"
    by (simp_all add: column_def)
  have v: "float64_dot [Finite 2, Finite 0, Finite 3] [Finite 2, Finite 4, Finite 6] = Finite 22"
    by code_simp
  from projector_shape_and_entries[OF p x d, of float64_dot] obtain R where
    R: "projector float64_dot ?P ?X = Inr R" "shape R = (ncols ?P, ncols ?X)"
    and ent: "\<forall>i<ncols ?P. \<forall>j<ncols ?X.
                rows R ! i ! j = float64_dot (column ?P i) (column ?X j)"
    by blast
  from ent[rule_format, of 0 1] cp cx
  have "rows R ! 0 ! 1 = float64_dot [Finite 2, Finite 0, Finite 3]
                                     [Finite 2, Finite 4, Finite 6]"
    by simp
  with R v have "projector float64_dot ?P ?X = Inr R \<and> shape R = (2, 2) \<and>
      rows R ! 0 ! 1 = float64_dot [Finite 2, Finite 0, Finite 3]
                                   [Finite 2, Finite 4, Finite 6] \<and>
      rows R ! 0 ! 1 = Finite 22"
    by simp
  with p x show ?thesis by blast
qed

section \<open>The component selector\<close>

text \<open>
  Claim C2, as stated, fails. The claim says that the component selector fails with an
  index error as soon as the requested index set holds an index outside \<open>[0, r)\<close>. The
  selector of the notebook is a slice: on a \<open>U\<close> with three columns, \<open>U[:, 7:9]\<close> returns
  the empty \<open>2 \<times> 0\<close> basis and \<open>U[:, 2:4]\<close> returns the single column 2, and neither
  raises.
\<close>

theorem component_selector_out_of_range_counterexample:
  "component_selector \<lparr>nrows = 2, ncols = 3, rows = [[1, 2, 3], [4, 5, 6 :: real]]\<rparr>
     (Some 7) (Some 9) = Inr \<lparr>nrows = 2, ncols = 0, rows = [[], []]\<rparr> \<and>
   component_selector \<lparr>nrows = 2, ncols = 3, rows = [[1, 2, 3], [4, 5, 6 :: real]]\<rparr>
     (Some 7) (Some 9) \<noteq> Inl IndexError \<and>
   component_selector \<lparr>nrows = 2, ncols = 3, rows = [[1, 2, 3], [4, 5, 6 :: real]]\<rparr>
     (Some 2) (Some 4) = Inr \<lparr>nrows = 2, ncols = 1, rows = [[3], [6]]\<rparr>"
  by (simp add: component_selector_def slice_columns_def slice_indices_def)

text \<open>
  Claim C2, amended. For every well-shaped \<open>U\<close> of shape \<open>d \<times> r\<close> and every slice
  \<open>start:stop\<close> (each bound any integer, or omitted), the component selector does not fail:
  it returns a well-shaped basis \<open>P\<close> with \<open>d\<close> rows whose columns are the consecutive
  columns \<open>lo, lo + 1, \<dots>\<close> of \<open>U\<close>, where \<open>lo\<close> is the lower bound after Python's adjustment
  of the slice to \<open>[0, r]\<close>. All columns of \<open>P\<close> are columns of \<open>U\<close>; the part of the
  slice outside \<open>[0, r)\<close> selects nothing.
\<close>

theorem component_selector_never_raises:
  assumes "well_shaped U"
  shows "\<exists>P. component_selector U start stop = Inr P \<and> well_shaped P \<and>
     nrows P = nrows U \<and>
     fst (slice_indices start stop (ncols U)) + ncols P \<le> ncols U \<and>
     (\<forall>j<ncols P. column P j = column U (fst (slice_indices start stop (ncols U)) + j))"
proof -
  obtain lo hi where lh: "slice_indices start stop (ncols U) = (lo, hi)"
    by (cases "slice_indices start stop (ncols U)")
  let ?P = "slice_columns U start stop"
  have "well_shaped ?P"
    using assms by (rule well_shaped_slice_columns)
  moreover have "nrows ?P = nrows U" "ncols ?P = hi - lo"
    using shape_slice_columns[OF lh] by simp_all
  moreover have "lo + (hi - lo) \<le> ncols U"
    using slice_indices_le[OF lh] by arith
  moreover have "column ?P j = column U (lo + j)" if "j < hi - lo" for j
    using assms lh that by (rule column_slice_columns)
  ultimately show ?thesis
    by (simp add: component_selector_def lh)
qed

theorem component_selector_never_raises_witness:
  "well_shaped \<lparr>nrows = 2, ncols = 3, rows = [[1, 2, 3], [4, 5, 6 :: real]]\<rparr> \<and>
   (\<exists>P. component_selector \<lparr>nrows = 2, ncols = 3, rows = [[1, 2, 3], [4, 5, 6 :: real]]\<rparr>
           (Some 2) (Some 4) = Inr P \<and>
        well_shaped P \<and> nrows P = 2 \<and> 2 + ncols P \<le> 3 \<and>
        (\<forall>j<ncols P. column P j
           = column \<lparr>nrows = 2, ncols = 3, rows = [[1, 2, 3], [4, 5, 6]]\<rparr> (2 + j)))"
proof -
  let ?U = "\<lparr>nrows = 2, ncols = 3, rows = [[1, 2, 3], [4, 5, 6 :: real]]\<rparr>"
  have u: "well_shaped ?U"
    by (simp add: well_shaped_def)
  have lo: "fst (slice_indices (Some 2) (Some 4) (ncols ?U)) = 2"
    by (simp add: slice_indices_def)
  from component_selector_never_raises[OF u, of "Some 2" "Some 4"] u show ?thesis
    unfolding lo by simp
qed

section \<open>Slices that reach past the last column\<close>

text \<open>
  Claim C10. The selection \<open>P = U[:, a:b]\<close> with non-negative bounds raises nothing and
  clamps the upper bound to the number \<open>r\<close> of columns of \<open>U\<close>: \<open>P\<close> has
  \<open>max(0, min(b, r) - a)\<close> columns, namely the columns \<open>a, a + 1, \<dots>\<close> of \<open>U\<close>. When
  \<open>b\<close> exceeds \<open>r\<close> (and \<open>a < b\<close>) the basis is narrower than the \<open>b - a\<close> columns asked
  for, possibly empty, as for \<open>7:9\<close> on a \<open>U\<close> with fewer than nine columns. The
  projection \<open>R = P.T @ X\<close> then succeeds, whatever the kernel, and has as many rows as \<open>P\<close> has columns.
\<close>

theorem slice_beyond_last_column_is_clamped:
  assumes "well_shaped U" "well_shaped X" "nrows U = nrows X" "0 \<le> a" "0 \<le> b"
  shows "\<exists>P R. component_selector U (Some a) (Some b) = Inr P \<and> well_shaped P \<and>
     shape P = (nrows U, nat (max 0 (min b (int (ncols U)) - a))) \<and>
     (a < b \<and> int (ncols U) < b \<longrightarrow> int (ncols P) < b - a) \<and>
     (\<forall>j<ncols P. column P j = column U (nat a + j)) \<and>
     projector ip P X = Inr R \<and> well_shaped R \<and> shape R = (ncols P, ncols X)"
proof -
  let ?r = "ncols U"
  let ?P = "slice_columns U (Some a) (Some b)"
  have lh: "slice_indices (Some a) (Some b) ?r = (min (nat a) ?r, min (nat b) ?r)"
    using assms(4,5) by (rule slice_indices_nonneg)
  have wf: "well_shaped ?P"
    using assms(1) by (rule well_shaped_slice_columns)
  have sh: "nrows ?P = nrows U" "ncols ?P = min (nat b) ?r - min (nat a) ?r"
    using shape_slice_columns[OF lh] by simp_all
  have n: "ncols ?P = nat (max 0 (min b (int ?r) - a))"
    using assms(4,5) sh(2) by (auto simp: min_def max_def)
  have narrow: "int (ncols ?P) < b - a" if "a < b \<and> int ?r < b"
    using that assms(4) n by (auto simp: min_def max_def)
  have cols: "column ?P j = column U (nat a + j)" if "j < ncols ?P" for j
  proof -
    from that sh(2) have "min (nat a) ?r = nat a" by arith
    with column_slice_columns[OF assms(1) lh] that sh(2) show ?thesis by simp
  qed
  from projector_ok[of ?P X ip] wf sh(1) assms(3) obtain R where
    "projector ip ?P X = Inr R" "well_shaped R" "shape R = (ncols ?P, ncols X)"
    by auto
  with wf sh(1) n narrow cols show ?thesis
    by (auto simp: component_selector_def shape_def)
qed

theorem slice_beyond_last_column_is_clamped_witness:
  "well_shaped \<lparr>nrows = 1, ncols = 8, rows = [map Finite [1, 2, 3, 4, 5, 6, 7, 8]]\<rparr> \<and>
   well_shaped \<lparr>nrows = 1, ncols = 2, rows = [[Finite 1, Finite 2]]\<rparr> \<and>
   (\<exists>P R. component_selector
            \<lparr>nrows = 1, ncols = 8, rows = [map Finite [1, 2, 3, 4, 5, 6, 7, 8]]\<rparr>
            (Some 7) (Some 9) = Inr P \<and>
          shape P = (1, 1) \<and> int (ncols P) < 9 - 7 \<and>
          projector float64_dot P \<lparr>nrows = 1, ncols = 2, rows = [[Finite 1, Finite 2]]\<rparr> = Inr R \<and>
          shape R = (1, 2))"
proof -
  let ?U = "\<lparr>nrows = 1, ncols = 8, rows = [map Finite [1, 2, 3, 4, 5, 6, 7, 8]]\<rparr>"
  let ?X = "\<lparr>nrows = 1, ncols = 2, rows = [[Finite 1, Finite 2]]\<rparr>"
  have u: "well_shaped ?U" and x: "well_shaped ?X" and d: "nrows ?U = nrows ?X"
    by (simp_all add: well_shaped_def)
  have a: "(0::int) \<le> 7" and b: "(0::int) \<le> 9"
    by simp_all
  from slice_beyond_last_column_is_clamped[OF u x d a b, of float64_dot] obtain P R where
    "component_selector ?U (Some 7) (Some 9) = Inr P"
    "shape P = (nrows ?U, nat (max 0 (min 9 (int (ncols ?U)) - 7)))"
    "(7::int) < 9 \<and> int (ncols ?U) < 9 \<longrightarrow> int (ncols P) < 9 - 7"
    "projector float64_dot P ?X = Inr R" "shape R = (ncols P, ncols ?X)"
    by blast
  then have "component_selector ?U (Some 7) (Some 9) = Inr P \<and>
      shape P = (1, 1) \<and> int (ncols P) < 9 - 7 \<and>
      projector float64_dot P ?X = Inr R \<and> shape R = (1, 2)"
    by (simp add: shape_def)
  with u x show ?thesis by blast
qed

section \<open>The data reaching the decomposition and the projection\<close>

lemma ingest_entries:
  assumes "well_shaped dataset" "0 \<le> f0"
    and "i < nrows (array_T (to_values conv (slice_columns dataset (Some f0) (Some f1))))"
    and "j < ncols (array_T (to_values conv (slice_columns dataset (Some f0) (Some f1))))"
  shows "rows (array_T (to_values conv (slice_columns dataset (Some f0) (Some f1)))) ! i ! j
         = conv (rows dataset ! j ! (nat f0 + i))"
proof -
  let ?S = "slice_columns dataset (Some f0) (Some f1)"
  let ?Xh = "to_values conv ?S"
  obtain lo hi where lh: "slice_indices (Some f0) (Some f1) (ncols dataset) = (lo, hi)"
    by (cases "slice_indices (Some f0) (Some f1) (ncols dataset)")
  have lo: "lo = min (nat f0) (ncols dataset)"
    using lh assms(2) by (auto simp: slice_indices_def Let_def min_def)
  have sh: "nrows ?S = nrows dataset" "ncols ?S = hi - lo"
    using shape_slice_columns[OF lh] by simp_all
  have i: "i < hi - lo" and j: "j < nrows dataset"
    using assms(3,4) sh by (simp_all add: array_T_def to_values_def)
  have "hi \<le> ncols dataset"
    using slice_indices_le[OF lh] by simp
  with i lo have lo': "lo = nat f0" by arith
  have wS: "well_shaped ?S"
    using assms(1) by (rule well_shaped_slice_columns)
  have "rows (array_T ?Xh) ! i = column ?Xh i"
    using i sh by (simp add: rows_array_T_nth to_values_def)
  also have "\<dots> = map conv (column ?S i)"
    using wS i sh by (simp add: column_def to_values_def well_shaped_def list_all_iff)
  also have "column ?S i = column dataset (lo + i)"
    using assms(1) lh i by (rule column_slice_columns)
  finally show ?thesis
    using j assms(1) lo' by (simp add: column_def well_shaped_def)
qed

text \<open>
  Claim C9, as stated, fails. The claim ends with "\<open>R\<close> equals \<open>P\<^sup>T\<close> times the
  uncentered data exactly". The product is computed in float64 and is rounded: for the
  orthonormal column \<open>(1/2, 1/2, 1/2, 1/2)\<close> and the sample \<open>(2 \<sqdot> 10\<^sup>1\<^sup>6, 2, 0, 0)\<close> the
  projector returns \<open>10\<^sup>1\<^sup>6\<close>, and the exact product is \<open>10\<^sup>1\<^sup>6 + 1\<close>.
\<close>

theorem projection_not_exact_counterexample:
  "projector float64_dot
     (to_values Finite \<lparr>nrows = 4, ncols = 1, rows = [[1 / 2], [1 / 2], [1 / 2], [1 / 2]]\<rparr>)
     (to_values Finite \<lparr>nrows = 4, ncols = 1,
                        rows = [[20000000000000000], [2], [0], [0]]\<rparr>)
     = Inr \<lparr>nrows = 1, ncols = 1, rows = [[Finite 10000000000000000]]\<rparr> \<and>
   projector exact_dot
     \<lparr>nrows = 4, ncols = 1, rows = [[1 / 2], [1 / 2], [1 / 2], [1 / 2]]\<rparr>
     \<lparr>nrows = 4, ncols = 1, rows = [[20000000000000000], [2], [0], [0]]\<rparr>
     = Inr \<lparr>nrows = 1, ncols = 1, rows = [[10000000000000001]]\<rparr>"
  by code_simp

text \<open>
  Claim C9, amended. No stage of a run centres or rescales the data. Whenever a run returns
  the coordinates \<open>R\<close> and the labels \<open>y\<close>, the matrix \<open>X\<close> given to the decomposition is
  the transposed column slice of the table, entry \<open>(i, j)\<close> of \<open>X\<close> being table entry
  \<open>(j, f0 + i)\<close> converted to the element type and nothing else (no mean is subtracted),
  and \<open>R\<close> is the product \<open>P.T @ X\<close> of that same \<open>X\<close> with the slice \<open>P\<close> of the factor
  \<open>U\<close> returned for \<open>X\<close>: entry \<open>(i, j)\<close> of \<open>R\<close> is the inner product, as the kernel of
  the element type computes it, of column \<open>i\<close> of \<open>P\<close> with column \<open>j\<close> of \<open>X\<close>. This
  holds for every decomposition routine, conversion and kernel. Nothing is said about the
  exact product: in float64 the entries of \<open>R\<close> are rounded.
\<close>

theorem pca_projects_raw_data:
  assumes "pca ip conv svd dataset f0 f1 lab start stop = Inr (R, y)"
  shows "\<exists>X U s Vh P.
     X = array_T (to_values conv (slice_columns dataset (Some f0) (Some f1))) \<and>
     column_at dataset lab = Inr y \<and>
     svd X = Inr (U, s, Vh) \<and>
     P = slice_columns U start stop \<and>
     shape R = (ncols P, ncols X) \<and>
     (\<forall>i<ncols P. \<forall>j<ncols X. rows R ! i ! j = ip (column P i) (column X j)) \<and>
     (well_shaped dataset \<and> 0 \<le> f0 \<longrightarrow>
        (\<forall>i<nrows X. \<forall>j<ncols X. rows X ! i ! j = conv (rows dataset ! j ! (nat f0 + i))))"
proof -
  let ?X = "array_T (to_values conv (slice_columns dataset (Some f0) (Some f1)))"
  from assms have y: "column_at dataset lab = Inr y"
    by (auto simp: pca_def ingest_def Let_def split: sum.splits prod.splits)
  then have ing: "ingest conv dataset f0 f1 lab = Inr (?X, y)"
    by (simp add: ingest_def)
  with assms obtain U s Vh where svd: "svd ?X = Inr (U, s, Vh)"
    and R: "projector ip (slice_columns U start stop) ?X = Inr R"
    by (auto simp: pca_def component_selector_def split: sum.splits prod.splits)
  have "rows ?X ! i ! j = conv (rows dataset ! j ! (nat f0 + i))"
    if "well_shaped dataset \<and> 0 \<le> f0" "i < nrows ?X" "j < ncols ?X" for i j
    using that by (intro ingest_entries) simp_all
  with y svd projector_entries[OF R] show ?thesis by blast
qed

theorem pca_projects_raw_data_witness:
  "pca float64_dot (\<lambda>n. round_float64 (of_int n))
       (\<lambda>X. Inr (\<lparr>nrows = 2, ncols = 2, rows = [[Finite 1, Finite 0], [Finite 0, Finite 1]]\<rparr>,
                 [Finite 3, Finite 2],
                 \<lparr>nrows = 2, ncols = 3,
                  rows = [[Finite 1, Finite 0, Finite 0], [Finite 0, Finite 1, Finite 0]]\<rparr>))
       \<lparr>nrows = 3, ncols = 3, rows = [[3, 0, 1], [0, 2, 2], [0, 0, 1]]\<rparr>
       0 2 2 None (Some 2)
     = Inr (\<lparr>nrows = 2, ncols = 3,
             rows = [[Finite 3, Finite 0, Finite 0], [Finite 0, Finite 2, Finite 0]]\<rparr>,
            [1, 2, 1]) \<and>
   well_shaped \<lparr>nrows = 3, ncols = 3, rows = [[3, 0, 1], [0, 2, 2], [0, 0, 1 :: int]]\<rparr> \<and>
   (\<exists>X. X = \<lparr>nrows = 2, ncols = 3,
              rows = [[Finite 3, Finite 0, Finite 0], [Finite 0, Finite 2, Finite 0]]\<rparr> \<and>
      (\<forall>i<nrows X. \<forall>j<ncols X. rows X ! i ! j
         = round_float64 (of_int
             (rows \<lparr>nrows = 3, ncols = 3, rows = [[3, 0, 1], [0, 2, 2], [0, 0, 1]]\<rparr> ! j ! i))))"
proof -
  let ?svd = "\<lambda>X :: float64 ndarray.
     Inr (\<lparr>nrows = 2, ncols = 2, rows = [[Finite 1, Finite 0], [Finite 0, Finite 1]]\<rparr>,
          [Finite 3, Finite 2],
          \<lparr>nrows = 2, ncols = 3,
           rows = [[Finite 1, Finite 0, Finite 0], [Finite 0, Finite 1, Finite 0]]\<rparr>)
       :: py_exception + (float64 ndarray \<times> float64 list \<times> float64 ndarray)"
  let ?conv = "\<lambda>n :: int. round_float64 (of_int n)"
  let ?D = "\<lparr>nrows = 3, ncols = 3, rows = [[3, 0, 1], [0, 2, 2], [0, 0, 1 :: int]]\<rparr>"
  let ?R = "\<lparr>nrows = 2, ncols = 3,
             rows = [[Finite 3, Finite 0, Finite 0], [Finite 0, Finite 2, Finite 0]]\<rparr>"
  have run: "pca float64_dot ?conv ?svd ?D 0 2 2 None (Some 2) = Inr (?R, [1, 2, 1])"
    by code_simp
  have d: "well_shaped ?D"
    by (simp add: well_shaped_def)
  have x: "array_T (to_values ?conv (slice_columns ?D (Some 0) (Some 2))) = ?R"
    by code_simp
  from pca_projects_raw_data[OF run] have
    "well_shaped ?D \<and> (0::int) \<le> 0 \<longrightarrow>
       (\<forall>i<nrows (array_T (to_values ?conv (slice_columns ?D (Some 0) (Some 2)))).
        \<forall>j<ncols (array_T (to_values ?conv (slice_columns ?D (Some 0) (Some 2)))).
          rows (array_T (to_values ?conv (slice_columns ?D (Some 0) (Some 2)))) ! i ! j
            = ?conv (rows ?D ! j ! (nat 0 + i)))"
    by blast
  with d have "\<forall>i<nrows ?R. \<forall>j<ncols ?R.
      rows ?R ! i ! j = round_float64 (of_int (rows ?D ! j ! i))"
    unfolding x by simp
  with run d show ?thesis by blast
qed

end
